theory Spec2Isabelle
  imports Complex_Main "HOL-Library.Log_Nat" "HOL-Library.Char_ord" "HOL-Library.List_Lexorder"
begin

section \<open>JavaScript numbers\<close>

text \<open>
  A JavaScript \<^verbatim>\<open>number\<close> is an IEEE 754 binary64 value: NaN, an infinity, or a finite
  value with a sign (so that \<^verbatim>\<open>-0\<close> exists). A finite value is kept as its sign and its
  magnitude, a non-negative rational. \<^verbatim>\<open>a / b\<close> and \<^verbatim>\<open>a * b\<close> are the exact quotient and
  product rounded to the nearest binary64 value, ties to even; a decimal literal of the
  source denotes the binary64 value nearest to it.
\<close>

datatype number = NaN | Infinity bool | Finite bool rat

text \<open>The binade of a positive rational: the \<open>e\<close> with \<open>2 powi e \<le> a < 2 powi (e + 1)\<close>.\<close>

definition floor_log2 :: "rat \<Rightarrow> int" where
  "floor_log2 a =
     (let (n, d) = quotient_of a;
          k = bitlen n - bitlen d
      in if 2 powi k \<le> a then k else k - 1)"

definition round_half_even :: "rat \<Rightarrow> int" where
  "round_half_even r =
     (let f = \<lfloor>r\<rfloor>; d = r - of_int f
      in if d < 1 / 2 then f
         else if 1 / 2 < d then f + 1
         else if even f then f else f + 1)"

text \<open>
  Rounding a magnitude to binary64: 53 significant bits, the unit in the last place never
  below \<open>2 powi - 1074\<close> (subnormal range), overflow to infinity from \<open>2 ^ 1024\<close> on.
\<close>

definition round_to_double :: "bool \<Rightarrow> rat \<Rightarrow> number" where
  "round_to_double neg a =
     (if a \<le> 0 then Finite neg 0
      else let e = floor_log2 a;
               p = max (e - 52) (- 1074);
               v = of_int (round_half_even (a / 2 powi p)) * 2 powi p
           in if 2 ^ 1024 \<le> v then Infinity neg else Finite neg v)"

text \<open>A non-negative decimal literal of the source.\<close>

definition lit :: "rat \<Rightarrow> number" where
  "lit q = round_to_double False q"

definition one :: number where
  "one = Finite False 1"

text \<open>The operator \<^verbatim>\<open>/\<close> on numbers.\<close>

fun fdiv :: "number \<Rightarrow> number \<Rightarrow> number" where
  "fdiv NaN y = NaN"
| "fdiv x NaN = NaN"
| "fdiv (Infinity s) (Infinity t) = NaN"
| "fdiv (Infinity s) (Finite t b) = Infinity (s \<noteq> t)"
| "fdiv (Finite s a) (Infinity t) = Finite (s \<noteq> t) 0"
| "fdiv (Finite s a) (Finite t b) =
     (if b = 0 then (if a = 0 then NaN else Infinity (s \<noteq> t))
      else round_to_double (s \<noteq> t) (a / b))"

text \<open>The operator \<^verbatim>\<open>*\<close> on numbers.\<close>

fun fmul :: "number \<Rightarrow> number \<Rightarrow> number" where
  "fmul NaN y = NaN"
| "fmul x NaN = NaN"
| "fmul (Infinity s) (Infinity t) = Infinity (s \<noteq> t)"
| "fmul (Infinity s) (Finite t b) = (if b = 0 then NaN else Infinity (s \<noteq> t))"
| "fmul (Finite s a) (Infinity t) = (if a = 0 then NaN else Infinity (s \<noteq> t))"
| "fmul (Finite s a) (Finite t b) = round_to_double (s \<noteq> t) (a * b)"

text \<open>A number is falsy when it is \<^verbatim>\<open>+0\<close>, \<^verbatim>\<open>-0\<close> or NaN.\<close>

fun number_truthy :: "number \<Rightarrow> bool" where
  "number_truthy NaN = False"
| "number_truthy (Infinity s) = True"
| "number_truthy (Finite s a) = (a \<noteq> 0)"

text \<open>A positive finite number, and a positive number (finite or \<^verbatim>\<open>Infinity\<close>).\<close>

fun positive_finite :: "number \<Rightarrow> bool" where
  "positive_finite (Finite s a) = (\<not> s \<and> 0 < a)"
| "positive_finite x = False"

fun positive :: "number \<Rightarrow> bool" where
  "positive (Finite s a) = (\<not> s \<and> 0 < a)"
| "positive (Infinity s) = (\<not> s)"
| "positive NaN = False"

fun is_zero :: "number \<Rightarrow> bool" where
  "is_zero (Finite s a) = (a = 0)"
| "is_zero x = False"


section \<open>JavaScript values\<close>

text \<open>
  The values a parsed JSON body is made of, and \<^verbatim>\<open>undefined\<close>. An object is the list of
  its own properties. A string is the list of its characters; strings are ordered
  lexicographically by character code, as the language compares them. \<open>JBuiltin\<close> is
  what reading a member that every object inherits from \<^verbatim>\<open>Object.prototype\<close> gives: a
  built-in function (for \<^verbatim>\<open>__proto__\<close> the prototype object itself).
\<close>

datatype jsval =
    JUndefined
  | JNull
  | JBool bool
  | JNum number
  | JStr string
  | JArr "jsval list"
  | JObj "(string \<times> jsval) list"
  | JBuiltin

text \<open>Truthiness (\<^verbatim>\<open>!v\<close>, \<^verbatim>\<open>v || w\<close>, \<^verbatim>\<open>v && w\<close>, \<^verbatim>\<open>if (v)\<close>).\<close>

fun truthy :: "jsval \<Rightarrow> bool" where
  "truthy JUndefined = False"
| "truthy JNull = False"
| "truthy (JBool b) = b"
| "truthy (JNum n) = number_truthy n"
| "truthy (JStr s) = (s \<noteq> [])"
| "truthy (JArr xs) = True"
| "truthy (JObj kvs) = True"
| "truthy JBuiltin = True"

text \<open>
  The conversions of the language that the program relies on implicitly and that are not
  written in the repository are parameters: what \<^verbatim>\<open>ToString\<close> gives on a value that is
  not a string, what \<^verbatim>\<open>ToNumber\<close> gives on a value that is not a number, and the two
  string built-ins the proxy calls. One conversion is fixed: a built-in function and the
  prototype object convert to the number NaN.
\<close>

record runtime =
  stringOf :: "jsval \<Rightarrow> string"
  numberOf :: "jsval \<Rightarrow> number"
  toUpperCase :: "string \<Rightarrow> string"
  encodeURIComponent :: "string \<Rightarrow> string"

definition ToString :: "runtime \<Rightarrow> jsval \<Rightarrow> string" where
  "ToString rt v = (case v of JStr s \<Rightarrow> s | _ \<Rightarrow> stringOf rt v)"

definition ToNumber :: "runtime \<Rightarrow> jsval \<Rightarrow> number" where
  "ToNumber rt v = (case v of JNum n \<Rightarrow> n | JBuiltin \<Rightarrow> NaN | _ \<Rightarrow> numberOf rt v)"

text \<open>
  Creating an object from a list of entries, as \<^verbatim>\<open>Object.fromEntries\<close> and an object
  literal do: the properties are written in order, a later entry of the same key
  overwrites the earlier one.
\<close>

definition objectOf :: "(string \<times> 'v) list \<Rightarrow> (string \<rightharpoonup> 'v)" where
  "objectOf es = foldl (\<lambda>m (k, v). m(k \<mapsto> v)) Map.empty es"

text \<open>
  Reading a property: \<^verbatim>\<open>v.k\<close>, \<^verbatim>\<open>v?.k\<close>, \<^verbatim>\<open>v[k]\<close>. Only an object has the properties the
  program reads by name (\<^verbatim>\<open>result\<close>, \<^verbatim>\<open>supported_codes\<close>, \<^verbatim>\<open>conversion_rates\<close>,
  \<^verbatim>\<open>base_code\<close>); on every other value the read gives \<^verbatim>\<open>undefined\<close>. The members of a
  parsed object are written in the order of the text, a repeated key keeping its last
  value.
\<close>

definition getProp :: "jsval \<Rightarrow> string \<Rightarrow> jsval" where
  "getProp v k =
     (case v of
        JObj kvs \<Rightarrow> (case objectOf kvs k of Some x \<Rightarrow> x | None \<Rightarrow> JUndefined)
      | _ \<Rightarrow> JUndefined)"

text \<open>
  A \<^verbatim>\<open>Record<string, T>\<close> held in the state is a plain object: a map from its own keys
  to values, with \<^verbatim>\<open>Object.prototype\<close> behind it. Reading \<^verbatim>\<open>m[k]\<close> gives the own value
  when \<open>k\<close> is an own key; otherwise the inherited member when \<open>k\<close> names one; otherwise
  \<^verbatim>\<open>undefined\<close>.
\<close>

definition objectPrototypeMembers :: "string list" where
  "objectPrototypeMembers =
     [''constructor'', ''hasOwnProperty'', ''isPrototypeOf'', ''propertyIsEnumerable'',
      ''toLocaleString'', ''toString'', ''valueOf'', ''__proto__'',
      ''__defineGetter__'', ''__defineSetter__'', ''__lookupGetter__'', ''__lookupSetter__'']"

definition lookup :: "(string \<rightharpoonup> jsval) \<Rightarrow> string \<Rightarrow> jsval" where
  "lookup m k =
     (case m k of
        Some v \<Rightarrow> v
      | None \<Rightarrow> if k \<in> set objectPrototypeMembers then JBuiltin else JUndefined)"


section \<open>The client: built-in tables\<close>

definition fallbackCurrencies :: "string list" where
  "fallbackCurrencies = [''USD'', ''EUR'', ''GBP'', ''JPY'', ''CAD'', ''AUD'', ''CHF'']"

definition fallbackNames :: "(string \<times> string) list" where
  "fallbackNames =
     [(''USD'', ''US Dollar''),
      (''EUR'', ''Euro''),
      (''GBP'', ''British Pound''),
      (''JPY'', ''Japanese Yen''),
      (''CAD'', ''Canadian Dollar''),
      (''AUD'', ''Australian Dollar''),
      (''CHF'', ''Swiss Franc'')]"

definition baseRates :: "(string \<times> number) list" where
  "baseRates =
     [(''USD'', lit 1),
      (''EUR'', lit (92 / 100)),
      (''GBP'', lit (78 / 100)),
      (''JPY'', lit (1558 / 10)),
      (''CAD'', lit (136 / 100)),
      (''AUD'', lit (152 / 100)),
      (''CHF'', lit (86 / 100))]"

text \<open>
  \<^verbatim>\<open>deriveRatesFromFallback\<close>: when \<^verbatim>\<open>baseRates[base]\<close> is falsy the table is returned as
  it is; otherwise every entry is multiplied by \<^verbatim>\<open>1 / baseRates[base]\<close>. For a base that
  is no key of the table but names an inherited member, \<^verbatim>\<open>baseRates[base]\<close> is a built-in
  function, which is truthy and divides as NaN.
\<close>

definition deriveRatesFromFallback :: "string \<Rightarrow> (string \<rightharpoonup> number)" where
  "deriveRatesFromFallback base =
     (case map_of baseRates base of
        None \<Rightarrow>
          if base \<in> set objectPrototypeMembers then
            let usdPerBase = fdiv (lit 1) NaN;
                entries = map (\<lambda>(code, rate). (code, fmul usdPerBase rate)) baseRates
            in objectOf entries
          else map_of baseRates
      | Some b \<Rightarrow>
          if \<not> number_truthy b then map_of baseRates
          else let usdPerBase = fdiv (lit 1) b;
                   entries = map (\<lambda>(code, rate). (code, fmul usdPerBase rate)) baseRates
               in objectOf entries)"


section \<open>The client: cross rate\<close>

text \<open>
  The \<^verbatim>\<open>rate\<close> memo of the three application shells (the same two lines in each):
  \<^verbatim>\<open>if (!rates[fromCurrency] || !rates[toCurrency]) return 1;\<close>
  \<^verbatim>\<open>return rates[toCurrency] / rates[fromCurrency];\<close>
\<close>

definition rateGuard :: "(string \<rightharpoonup> jsval) \<Rightarrow> string \<Rightarrow> string \<Rightarrow> bool" where
  "rateGuard rates fromCurrency toCurrency \<longleftrightarrow>
     \<not> truthy (lookup rates fromCurrency) \<or> \<not> truthy (lookup rates toCurrency)"

definition rate :: "runtime \<Rightarrow> (string \<rightharpoonup> jsval) \<Rightarrow> string \<Rightarrow> string \<Rightarrow> number" where
  "rate rt rates fromCurrency toCurrency =
     (if rateGuard rates fromCurrency toCurrency then lit 1
      else fdiv (ToNumber rt (lookup rates toCurrency)) (ToNumber rt (lookup rates fromCurrency)))"


section \<open>The client: state and network\<close>

datatype target = From | To

text \<open>
  The \<^verbatim>\<open>useState\<close> cells of \<^verbatim>\<open>AppContent\<close>. The three cells that a response fills hold
  the values the response contained: the casts of the source (\<^verbatim>\<open>as [string, string][]\<close>,
  \<^verbatim>\<open>as Record<string, number>\<close>) check nothing when the program runs.
\<close>

record app_state =
  currencies :: "jsval list"
  currencyNames :: "string \<rightharpoonup> jsval"
  rates :: "string \<rightharpoonup> jsval"
  fromCurrency :: string
  toCurrency :: string
  amountFrom :: string
  amountTo :: string
  activeInput :: target
  modalVisible :: bool
  modalTarget :: target
  usingFallback :: bool
  loading :: bool
  searchTerm :: string
  keypadHeight :: number

text \<open>
  What \<^verbatim>\<open>fetch\<close> resolves to: the HTTP status and the body, \<open>None\<close> when the body is
  not JSON (\<^verbatim>\<open>json()\<close> rejects). The network maps a URL to a response, or to \<open>None\<close>
  when the \<^verbatim>\<open>fetch\<close> promise rejects.
\<close>

record response =
  status :: nat
  body :: "jsval option"

definition ok :: "response \<Rightarrow> bool" where
  "ok r \<longleftrightarrow> 200 \<le> status r \<and> status r \<le> 299"

type_synonym network = "string \<Rightarrow> response option"

datatype exn = NetworkError | SyntaxError | TypeError

definition json :: "response \<Rightarrow> exn + jsval" where
  "json r = (case body r of None \<Rightarrow> Inl SyntaxError | Some j \<Rightarrow> Inr j)"

text \<open>Applying a function that may throw to every element; the first throw ends it.\<close>

fun mapE :: "('a \<Rightarrow> exn + 'b) \<Rightarrow> 'a list \<Rightarrow> exn + 'b list" where
  "mapE f [] = Inr []"
| "mapE f (x # xs) =
     (case f x of
        Inl e \<Rightarrow> Inl e
      | Inr y \<Rightarrow> (case mapE f xs of Inl e \<Rightarrow> Inl e | Inr ys \<Rightarrow> Inr (y # ys)))"

text \<open>
  The callback \<^verbatim>\<open>([code]) => code\<close>: the first element the argument iterates over,
  \<^verbatim>\<open>undefined\<close> when there is none, a \<^verbatim>\<open>TypeError\<close> when the argument is not iterable.
\<close>

fun firstOf :: "jsval \<Rightarrow> exn + jsval" where
  "firstOf (JArr []) = Inr JUndefined"
| "firstOf (JArr (x # xs)) = Inr x"
| "firstOf (JStr []) = Inr JUndefined"
| "firstOf (JStr (c # cs)) = Inr (JStr [c])"
| "firstOf v = Inl TypeError"

text \<open>
  \<^verbatim>\<open>sort()\<close> with no comparator: by the string of each element, stable,
  \<^verbatim>\<open>undefined\<close> elements last.
\<close>

definition sortDefault :: "runtime \<Rightarrow> jsval list \<Rightarrow> jsval list" where
  "sortDefault rt xs =
     sort_key (ToString rt) (filter (\<lambda>v. v \<noteq> JUndefined) xs) @ filter (\<lambda>v. v = JUndefined) xs"

text \<open>
  \<^verbatim>\<open>Object.fromEntries\<close> on an array: every element has to be an object (an array is
  one, a function too), its members \<^verbatim>\<open>0\<close> and \<^verbatim>\<open>1\<close> are the key and the value.
\<close>

fun entryOf :: "runtime \<Rightarrow> jsval \<Rightarrow> exn + (string \<times> jsval)" where
  "entryOf rt (JArr xs) =
     Inr (ToString rt (if 0 < length xs then xs ! 0 else JUndefined),
          (if 1 < length xs then xs ! 1 else JUndefined))"
| "entryOf rt (JObj kvs) =
     Inr (ToString rt (getProp (JObj kvs) ''0''), getProp (JObj kvs) ''1'')"
| "entryOf rt JBuiltin = Inr (ToString rt JUndefined, JUndefined)"
| "entryOf rt v = Inl TypeError"

definition fromEntries :: "runtime \<Rightarrow> jsval list \<Rightarrow> exn + (string \<rightharpoonup> jsval)" where
  "fromEntries rt ps = (case mapE (entryOf rt) ps of Inl e \<Rightarrow> Inl e | Inr es \<Rightarrow> Inr (objectOf es))"

text \<open>
  The own enumerable properties an object spread \<^verbatim>\<open>{ ...v }\<close> copies: the members of
  an object, the indexed elements of an array, the indexed characters of a string,
  nothing for any other value.
\<close>

definition indexKey :: "runtime \<Rightarrow> nat \<Rightarrow> string" where
  "indexKey rt i = stringOf rt (JNum (Finite False (of_nat i)))"

fun ownProperties :: "runtime \<Rightarrow> jsval \<Rightarrow> (string \<times> jsval) list" where
  "ownProperties rt (JObj kvs) = kvs"
| "ownProperties rt (JArr xs) = zip (map (indexKey rt) [0..<length xs]) xs"
| "ownProperties rt (JStr s) = zip (map (indexKey rt) [0..<length s]) (map (\<lambda>c. JStr [c]) s)"
| "ownProperties rt v = []"


section \<open>The client: fetch cycle\<close>

text \<open>The built-in catalog and rate table as the state holds them.\<close>

definition installFallbackCatalog :: "app_state \<Rightarrow> app_state" where
  "installFallbackCatalog s =
     s\<lparr>currencies := map JStr fallbackCurrencies,
       currencyNames := map_option JStr \<circ> map_of fallbackNames\<rparr>"

definition installFallbackRates :: "app_state \<Rightarrow> app_state" where
  "installFallbackRates s = s\<lparr>rates := map_option JNum \<circ> deriveRatesFromFallback ''USD''\<rparr>"

text \<open>\<^verbatim>\<open>apiBaseUrl.replace(/\/$/, '')\<close>\<close>

definition trimTrailingSlash :: "string \<Rightarrow> string" where
  "trimTrailingSlash u = (if u \<noteq> [] \<and> last u = CHR ''/'' then butlast u else u)"

definition codesSuccess :: "response \<Rightarrow> jsval \<Rightarrow> bool" where
  "codesSuccess codesRes codesJson \<longleftrightarrow>
     ok codesRes \<and> getProp codesJson ''result'' = JStr ''success''
     \<and> (case getProp codesJson ''supported_codes'' of JArr ps \<Rightarrow> True | _ \<Rightarrow> False)"

text \<open>\<^verbatim>\<open>ratesSuccess\<close> is \<^verbatim>\<open>false\<close> or the value of \<^verbatim>\<open>conversion_rates\<close>.\<close>

definition ratesSuccess :: "response \<Rightarrow> jsval \<Rightarrow> jsval" where
  "ratesSuccess ratesRes ratesJson =
     (if \<not> ok ratesRes then JBool False
      else if getProp ratesJson ''result'' \<noteq> JStr ''success'' then JBool False
      else getProp ratesJson ''conversion_rates'')"

text \<open>The branch taken when \<^verbatim>\<open>codesSuccess\<close> holds; it can throw before it sets anything.\<close>

definition applyCodes :: "runtime \<Rightarrow> jsval \<Rightarrow> app_state \<Rightarrow> exn + app_state" where
  "applyCodes rt codesJson s =
     (let pairs = (case getProp codesJson ''supported_codes'' of JArr ps \<Rightarrow> ps | _ \<Rightarrow> [])
      in case mapE firstOf pairs of
           Inl e \<Rightarrow> Inl e
         | Inr firsts \<Rightarrow>
             let codes = sortDefault rt firsts
             in (case fromEntries rt pairs of
                   Inl e \<Rightarrow> Inl e
                 | Inr names \<Rightarrow> Inr (s\<lparr>currencies := codes, currencyNames := names\<rparr>)))"

text \<open>The branch taken when \<^verbatim>\<open>ratesSuccess\<close> is truthy.\<close>

definition baseCode :: "jsval \<Rightarrow> jsval" where
  "baseCode ratesJson =
     (if truthy (getProp ratesJson ''base_code'') then getProp ratesJson ''base_code''
      else JStr ''USD'')"

definition applyRates :: "runtime \<Rightarrow> jsval \<Rightarrow> app_state \<Rightarrow> app_state" where
  "applyRates rt ratesJson s =
     (let incoming = getProp ratesJson ''conversion_rates''
      in s\<lparr>rates := (objectOf (ownProperties rt incoming))
                       (ToString rt (baseCode ratesJson) \<mapsto> JNum (lit 1))\<rparr>)"

text \<open>
  The \<^verbatim>\<open>try\<close> block, given what the two \<^verbatim>\<open>fetch\<close> calls settle to. It ends normally or
  with the exception thrown, and in both cases with the state reached so far.
\<close>

definition tryBlock ::
  "runtime \<Rightarrow> response option \<Rightarrow> response option \<Rightarrow> app_state \<Rightarrow> exn option \<times> app_state" where
  "tryBlock rt codesFetch ratesFetch s =
     (case (codesFetch, ratesFetch) of
        (None, _) \<Rightarrow> (Some NetworkError, s)
      | (Some codesRes, None) \<Rightarrow> (Some NetworkError, s)
      | (Some codesRes, Some ratesRes) \<Rightarrow>
          (case (if ok codesRes then json codesRes else Inr JNull) of
             Inl e \<Rightarrow> (Some e, s)
           | Inr codesJson \<Rightarrow>
               (case (if ok ratesRes then json ratesRes else Inr JNull) of
                  Inl e \<Rightarrow> (Some e, s)
                | Inr ratesJson \<Rightarrow>
                    (case (if codesSuccess codesRes codesJson then applyCodes rt codesJson s
                           else Inr (installFallbackCatalog s)) of
                       Inl e \<Rightarrow> (Some e, s)
                     | Inr s1 \<Rightarrow>
                         let s2 = (if truthy (ratesSuccess ratesRes ratesJson)
                                   then applyRates rt ratesJson s1
                                   else installFallbackRates s1)
                         in (None,
                             s2\<lparr>usingFallback :=
                                  \<not> (codesSuccess codesRes codesJson
                                     \<and> truthy (ratesSuccess ratesRes ratesJson))\<rparr>)))))"

definition catchBlock :: "app_state \<Rightarrow> app_state" where
  "catchBlock s = (installFallbackRates (installFallbackCatalog s))\<lparr>usingFallback := True\<rparr>"

text \<open>
  \<^verbatim>\<open>loadSymbolsAndRates\<close> of \<^verbatim>\<open>frontend/App.tsx\<close>: the state it leaves and the URLs it
  has fetched. \<open>apiBaseUrl\<close> is the environment value, \<open>None\<close> when it is not set.
\<close>

definition loadSymbolsAndRates ::
  "runtime \<Rightarrow> string option \<Rightarrow> network \<Rightarrow> app_state \<Rightarrow> app_state \<times> string list" where
  "loadSymbolsAndRates rt apiBaseUrl net s =
     (let s0 = s\<lparr>loading := True\<rparr>
      in case apiBaseUrl of
           None \<Rightarrow>
             ((installFallbackRates (installFallbackCatalog s0))
                \<lparr>usingFallback := True, loading := False\<rparr>, [])
         | Some u \<Rightarrow>
             if u = [] then
               ((installFallbackRates (installFallbackCatalog s0))
                  \<lparr>usingFallback := True, loading := False\<rparr>, [])
             else
               let trimmedBase = trimTrailingSlash u;
                   codesUrl = trimmedBase @ ''/codes'';
                   ratesUrl = trimmedBase @ ''/rates?base=USD'';
                   (thrown, s1) = tryBlock rt (net codesUrl) (net ratesUrl) s0;
                   s2 = (case thrown of Some e \<Rightarrow> catchBlock s1 | None \<Rightarrow> s1)
               in (s2\<lparr>loading := False\<rparr>, [codesUrl, ratesUrl]))"


section \<open>The proxy\<close>

record reply =
  replyStatus :: nat
  replyBody :: jsval

definition UPSTREAM_BASE :: string where
  "UPSTREAM_BASE = ''https://v6.exchangerate-api.com/v6''"

text \<open>
  \<^verbatim>\<open>ensureApiKey\<close>: \<open>None\<close> when the key is there, the reply it has sent otherwise. The key
  is the environment value, \<open>None\<close> when it is not set; the empty string is falsy too.
\<close>

definition ensureApiKey :: "string option \<Rightarrow> reply option" where
  "ensureApiKey API_KEY =
     (if API_KEY \<noteq> None \<and> API_KEY \<noteq> Some [] then None
      else Some \<lparr>replyStatus = 500,
                 replyBody = JObj [(''error'', JStr ''Missing EXCHANGERATE_API_KEY on the backend'')]\<rparr>)"

definition health :: "reply \<times> string list" where
  "health = (\<lparr>replyStatus = 200, replyBody = JObj [(''ok'', JBool True)]\<rparr>, [])"

text \<open>
  What both data handlers do once the URL is built: one outbound \<^verbatim>\<open>fetch\<close>, then the
  relay. The result is the reply and the URLs fetched.
\<close>

definition relay :: "network \<Rightarrow> string \<Rightarrow> string \<Rightarrow> reply \<times> string list" where
  "relay upstreamNet url failure =
     (case upstreamNet url of
        None \<Rightarrow> (\<lparr>replyStatus = 500, replyBody = JObj [(''error'', JStr failure)]\<rparr>, [url])
      | Some upstream \<Rightarrow>
          (case json upstream of
             Inl e \<Rightarrow> (\<lparr>replyStatus = 500, replyBody = JObj [(''error'', JStr failure)]\<rparr>, [url])
           | Inr j \<Rightarrow>
               if \<not> ok upstream \<or> getProp j ''result'' \<noteq> JStr ''success'' then
                 (\<lparr>replyStatus = 502,
                   replyBody = JObj [(''error'', JStr ''Upstream error''), (''details'', j)]\<rparr>, [url])
               else (\<lparr>replyStatus = 200, replyBody = j\<rparr>, [url])))"

text \<open>The key inside a template string: an unset key reads \<^verbatim>\<open>undefined\<close>.\<close>

definition keyText :: "string option \<Rightarrow> string" where
  "keyText API_KEY = (case API_KEY of Some k \<Rightarrow> k | None \<Rightarrow> ''undefined'')"

definition codesUpstreamUrl :: "string option \<Rightarrow> string" where
  "codesUpstreamUrl API_KEY = UPSTREAM_BASE @ ''/'' @ keyText API_KEY @ ''/codes''"

definition getCodes :: "string option \<Rightarrow> network \<Rightarrow> reply \<times> string list" where
  "getCodes API_KEY upstreamNet =
     (case ensureApiKey API_KEY of
        Some r \<Rightarrow> (r, [])
      | None \<Rightarrow> relay upstreamNet (codesUpstreamUrl API_KEY) ''Failed to fetch codes'')"

text \<open>\<open>queryBase\<close> is \<^verbatim>\<open>req.query.base\<close>, \<^verbatim>\<open>undefined\<close> when the parameter is not given.\<close>

definition latestUpstreamUrl :: "runtime \<Rightarrow> string option \<Rightarrow> jsval \<Rightarrow> string" where
  "latestUpstreamUrl rt API_KEY queryBase =
     (let base = toUpperCase rt
                   (ToString rt (if truthy queryBase then queryBase else JStr ''USD''))
      in UPSTREAM_BASE @ ''/'' @ keyText API_KEY @ ''/latest/'' @ encodeURIComponent rt base)"

definition getRates :: "runtime \<Rightarrow> string option \<Rightarrow> jsval \<Rightarrow> network \<Rightarrow> reply \<times> string list" where
  "getRates rt API_KEY queryBase upstreamNet =
     (case ensureApiKey API_KEY of
        Some r \<Rightarrow> (r, [])
      | None \<Rightarrow>
          relay upstreamNet (latestUpstreamUrl rt API_KEY queryBase) ''Failed to fetch rates'')"


section \<open>Sample inputs\<close>

text \<open>
  A runtime for the concrete runs below; they only convert strings that are upper-case
  ASCII letters already, which both string built-ins leave as they are.
\<close>

definition sampleRuntime :: runtime where
  "sampleRuntime =
     \<lparr>stringOf = (\<lambda>v. ''[object Object]''),
      numberOf = (\<lambda>v. NaN),
      toUpperCase = (\<lambda>s. s),
      encodeURIComponent = (\<lambda>s. s)\<rparr>"

definition initialState :: app_state where
  "initialState =
     \<lparr>currencies = map JStr fallbackCurrencies,
      currencyNames = map_option JStr \<circ> map_of fallbackNames,
      rates = map_option JNum \<circ> deriveRatesFromFallback ''USD'',
      fromCurrency = ''EUR'',
      toCurrency = ''USD'',
      amountFrom = ''0'',
      amountTo = ''0.00'',
      activeInput = From,
      modalVisible = False,
      modalTarget = From,
      usingFallback = False,
      loading = True,
      searchTerm = [],
      keypadHeight = Finite False 0\<rparr>"

definition codesBody :: jsval where
  "codesBody =
     JObj [(''result'', JStr ''success''),
           (''supported_codes'',
            JArr [JArr [JStr ''USD'', JStr ''United States Dollar''],
                  JArr [JStr ''EUR'', JStr ''Euro'']])]"

definition ratesBody :: jsval where
  "ratesBody =
     JObj [(''result'', JStr ''success''),
           (''base_code'', JStr ''USD''),
           (''conversion_rates'',
            JObj [(''USD'', JNum (lit 1)), (''EUR'', JNum (lit (92 / 100)))])]"



definition errorBody :: jsval where
  "errorBody = JObj [(''result'', JStr ''error''), (''error-type'', JStr ''invalid-key'')]"

text \<open>
  A network that answers both client requests with status 200 and the given bodies
  (\<open>None\<close>: a body that is not JSON).
\<close>

definition sampleNet :: "jsval option \<Rightarrow> jsval option \<Rightarrow> network" where
  "sampleNet codesReply ratesReply =
     (\<lambda>url. if url = ''http://h/codes'' then Some \<lparr>status = 200, body = codesReply\<rparr>
            else if url = ''http://h/rates?base=USD'' then Some \<lparr>status = 200, body = ratesReply\<rparr>
            else None)"

text \<open>A state that holds neither built-in table.\<close>

definition staleState :: app_state where
  "staleState =
     initialState\<lparr>currencies := [JStr ''XXX''],
                  currencyNames := [''XXX'' \<mapsto> JStr ''Stale''],
                  rates := [''XXX'' \<mapsto> JNum one],
                  usingFallback := False,
                  loading := False\<rparr>"


section \<open>Rounding to binary64\<close>

text \<open>
  \<open>floor_log2\<close> is the binade: it is the floor of the binary logarithm, and the only
  exponent whose power of two brackets the argument. With the binade known, a rounding is
  a computation on numerals.
\<close>

lemma floor_numeral_div:
  "\<lfloor>numeral a / numeral b :: rat\<rfloor> = numeral a div numeral b"
  using floor_divide_of_int_eq [of "numeral a" "numeral b", where ?'a = rat] by simp

lemma of_rat_powi2: "(of_rat (2 powi k) :: real) = 2 powr (of_int k)"
proof (cases "0 \<le> k")
  case True
  then show ?thesis
    by (simp add: power_int_def of_rat_power powr_realpow[symmetric])
next
  case False
  then have "(of_rat (2 powi k) :: real) = inverse (2 ^ nat (- k))"
    by (simp add: power_int_def of_rat_power of_rat_divide power_one_over inverse_eq_divide)
  also have "\<dots> = inverse (2 powr (of_nat (nat (- k))))"
    by (simp add: powr_realpow)
  also have "\<dots> = 2 powr (of_int k)"
    using False by (simp add: powr_minus[symmetric])
  finally show ?thesis .
qed

lemma powi2_le_iff:
  assumes "0 < a"
  shows "(2 powi k \<le> a) \<longleftrightarrow> (of_int k \<le> log 2 (of_rat a))"
proof -
  have "(2 powi k \<le> a) \<longleftrightarrow> ((of_rat (2 powi k) :: real) \<le> of_rat a)"
    by (simp add: of_rat_less_eq)
  also have "\<dots> \<longleftrightarrow> (2 powr (of_int k) \<le> (of_rat a :: real))"
    by (simp add: of_rat_powi2)
  also have "\<dots> \<longleftrightarrow> (of_int k \<le> log 2 (of_rat a))"
    using assms by (simp add: le_log_iff)
  finally show ?thesis .
qed

lemma floor_log2_eq:
  assumes "0 < a"
  shows "floor_log2 a = \<lfloor>log 2 (of_rat a)\<rfloor>"
proof -
  obtain n d where q: "quotient_of a = (n, d)" by (cases "quotient_of a")
  have d: "0 < d" using q quotient_of_denom_pos by blast
  have a: "a = of_int n / of_int d" using q quotient_of_div by blast
  have n: "0 < n" using assms a d by (simp add: zero_less_divide_iff)
  define x where "x = log 2 (of_int n)"
  define y where "y = log 2 (of_int d)"
  have la: "log 2 (of_rat a) = x - y"
    using n d by (simp add: a x_def y_def of_rat_divide log_divide)
  have bn: "bitlen n = \<lfloor>x\<rfloor> + 1" using n by (simp add: bitlen_alt_def x_def)
  have bd: "bitlen d = \<lfloor>y\<rfloor> + 1" using d by (simp add: bitlen_alt_def y_def)
  define k where "k = \<lfloor>x\<rfloor> - \<lfloor>y\<rfloor>"
  have fl: "floor_log2 a = (if of_int k \<le> x - y then k else k - 1)"
    using powi2_le_iff[OF assms, of k]
    by (simp add: floor_log2_def q bn bd k_def la)
  show ?thesis
    unfolding la fl k_def by (simp; linarith)
qed

lemma floor_log2_unique:
  assumes "0 < a" "2 powi e \<le> a" "a < 2 powi (e + 1)"
  shows "floor_log2 a = e"
proof -
  have 1: "of_int e \<le> log 2 (of_rat a)"
    using assms powi2_le_iff by blast
  have 2: "log 2 (of_rat a) < of_int (e + 1)"
    using assms(1,3) powi2_le_iff[of a "e + 1"] by simp
  show ?thesis
    unfolding floor_log2_eq[OF assms(1)] using 1 2 by linarith
qed

lemma round_to_double_binade:
  assumes "2 powi e \<le> a" "a < 2 powi (e + 1)"
  shows "round_to_double neg a =
     (let p = max (e - 52) (- 1074);
          v = of_int (round_half_even (a / 2 powi p)) * 2 powi p
      in if 2 ^ 1024 \<le> v then Infinity neg else Finite neg v)"
proof -
  have "0 < (2::rat) powi e" by simp
  then have pos: "0 < a" using assms(1) by linarith
  show ?thesis
    using pos by (simp add: round_to_double_def floor_log2_unique[OF pos assms])
qed

lemmas round_eval = round_half_even_def Let_def floor_numeral_div

lemma lit_USD: "lit 1 = Finite False 1"
  by (simp add: lit_def round_to_double_binade [of 0] round_eval)

lemma inverse_USD: "fdiv one (Finite False 1) = Finite False 1"
  by (simp add: one_def round_to_double_binade [of 0] round_eval)

lemma product_USD: "fmul (Finite False 1) (Finite False 1) = one"
  by (simp add: one_def round_to_double_binade [of 0] round_eval)

lemma lit_EUR: "lit (92 / 100) = Finite False (8286623314361713 / 9007199254740992)"
  by (simp add: lit_def round_to_double_binade [of "-1"] round_eval)

lemma inverse_EUR: "fdiv one (Finite False (8286623314361713 / 9007199254740992)) = Finite False (2447608493136139 / 2251799813685248)"
  by (simp add: one_def round_to_double_binade [of 0] round_eval)

lemma product_EUR: "fmul (Finite False (2447608493136139 / 2251799813685248)) (Finite False (8286623314361713 / 9007199254740992)) = one"
  by (simp add: one_def round_to_double_binade [of "-1"] round_eval)

lemma lit_GBP: "lit (78 / 100) = Finite False (3512807709348987 / 4503599627370496)"
  by (simp add: lit_def round_to_double_binade [of "-1"] round_eval)

lemma inverse_GBP: "fdiv one (Finite False (3512807709348987 / 4503599627370496)) = Finite False (1443461419029005 / 1125899906842624)"
  by (simp add: one_def round_to_double_binade [of 0] round_eval)

lemma product_GBP: "fmul (Finite False (1443461419029005 / 1125899906842624)) (Finite False (3512807709348987 / 4503599627370496)) = one"
  by (simp add: one_def round_to_double_binade [of "-1"] round_eval)

lemma lit_JPY: "lit (1558 / 10) = Finite False (2740862585720013 / 17592186044416)"
  by (simp add: lit_def round_to_double_binade [of 7] round_eval)

lemma inverse_JPY: "fdiv one (Finite False (2740862585720013 / 17592186044416)) = Finite False (7400009657296835 / 1152921504606846976)"
  by (simp add: one_def round_to_double_binade [of "-8"] round_eval)

lemma product_JPY: "fmul (Finite False (7400009657296835 / 1152921504606846976)) (Finite False (2740862585720013 / 17592186044416)) = one"
  by (simp add: one_def round_to_double_binade [of 0] round_eval)

lemma lit_CAD: "lit (136 / 100) = Finite False (6124895493223875 / 4503599627370496)"
  by (simp add: lit_def round_to_double_binade [of 0] round_eval)

lemma inverse_CAD: "fdiv one (Finite False (6124895493223875 / 4503599627370496)) = Finite False (6622940628486023 / 9007199254740992)"
  by (simp add: one_def round_to_double_binade [of "-1"] round_eval)

lemma product_CAD: "fmul (Finite False (6622940628486023 / 9007199254740992)) (Finite False (6124895493223875 / 4503599627370496)) = one"
  by (simp add: one_def round_to_double_binade [of "-1"] round_eval)

lemma lit_AUD: "lit (152 / 100) = Finite False (3422735716801577 / 2251799813685248)"
  by (simp add: lit_def round_to_double_binade [of 0] round_eval)

lemma inverse_AUD: "fdiv one (Finite False (3422735716801577 / 2251799813685248)) = Finite False (740723622922779 / 1125899906842624)"
  by (simp add: one_def round_to_double_binade [of "-1"] round_eval)

lemma product_AUD: "fmul (Finite False (740723622922779 / 1125899906842624)) (Finite False (3422735716801577 / 2251799813685248)) = one"
  by (simp add: one_def round_to_double_binade [of 0] round_eval)

lemma lit_CHF: "lit (86 / 100) = Finite False (7746191359077253 / 9007199254740992)"
  by (simp add: lit_def round_to_double_binade [of "-1"] round_eval)

lemma inverse_CHF: "fdiv one (Finite False (7746191359077253 / 9007199254740992)) = Finite False (5236743752756391 / 4503599627370496)"
  by (simp add: one_def round_to_double_binade [of 0] round_eval)

lemma product_CHF: "fmul (Finite False (5236743752756391 / 4503599627370496)) (Finite False (7746191359077253 / 9007199254740992)) = one"
  by (simp add: one_def round_to_double_binade [of 0] round_eval)

lemma baseRates_values:
  "baseRates =
     [(''USD'', Finite False 1),
      (''EUR'', Finite False (8286623314361713 / 9007199254740992)),
      (''GBP'', Finite False (3512807709348987 / 4503599627370496)),
      (''JPY'', Finite False (2740862585720013 / 17592186044416)),
      (''CAD'', Finite False (6124895493223875 / 4503599627370496)),
      (''AUD'', Finite False (3422735716801577 / 2251799813685248)),
      (''CHF'', Finite False (7746191359077253 / 9007199254740992))]"
  unfolding baseRates_def lit_USD lit_EUR lit_GBP lit_JPY lit_CAD lit_AUD lit_CHF
  by (rule refl)

lemma objectOf_foldl:
  "foldl (\<lambda>m (k, v). m(k \<mapsto> v)) m0 es = m0 ++ map_of (rev es)"
  by (induction es arbitrary: m0) (auto simp: map_add_upd_left fun_eq_iff map_add_def split: option.splits)

lemma objectOf_eq: "objectOf es = map_of (rev es)"
  by (simp add: objectOf_def objectOf_foldl)

lemma objectOf_distinct: "distinct (map fst es) \<Longrightarrow> objectOf es = map_of es"
  by (simp add: objectOf_eq map_of_inject_set distinct_map)

lemma derive_entry:
  assumes "map_of baseRates base = Some b" "number_truthy b"
  shows "deriveRatesFromFallback base code =
           map_option (fmul (fdiv one b)) (map_of baseRates code)"
proof -
  have d: "distinct (map fst (map (\<lambda>(code, rate). (code, fmul (fdiv one b) rate)) baseRates))"
    by (simp add: baseRates_def)
  show ?thesis
    using assms
    by (simp add: deriveRatesFromFallback_def lit_USD one_def[symmetric] objectOf_distinct[OF d]
          map_of_map[unfolded comp_def, simplified] Let_def)
qed


lemma baseRates_cases:
  assumes "map_of baseRates base = Some b"
  shows "number_truthy b \<and> fmul (fdiv one b) b = one"
proof -
  from assms have "(base, b) \<in> set baseRates" by (rule map_of_SomeD)
  then consider
      "b = Finite False 1"
    | "b = Finite False (8286623314361713 / 9007199254740992)"
    | "b = Finite False (3512807709348987 / 4503599627370496)"
    | "b = Finite False (2740862585720013 / 17592186044416)"
    | "b = Finite False (6124895493223875 / 4503599627370496)"
    | "b = Finite False (3422735716801577 / 2251799813685248)"
    | "b = Finite False (7746191359077253 / 9007199254740992)"
    unfolding baseRates_values by auto
  then show ?thesis
  proof cases
    case 1 then show ?thesis unfolding 1 inverse_USD product_USD by simp
  next
    case 2 then show ?thesis unfolding 2 inverse_EUR product_EUR by simp
  next
    case 3 then show ?thesis unfolding 3 inverse_GBP product_GBP by simp
  next
    case 4 then show ?thesis unfolding 4 inverse_JPY product_JPY by simp
  next
    case 5 then show ?thesis unfolding 5 inverse_CAD product_CAD by simp
  next
    case 6 then show ?thesis unfolding 6 inverse_AUD product_AUD by simp
  next
    case 7 then show ?thesis unfolding 7 inverse_CHF product_CHF by simp
  qed
qed

lemma baseRates_key:
  assumes "base \<in> set (map fst baseRates)"
  shows "\<exists>b. map_of baseRates base = Some b"
  using assms by (metis map_of_eq_None_iff not_Some_eq set_map)


lemma fallback_USD: "deriveRatesFromFallback ''USD'' ''USD'' = Some one"
proof -
  have b: "map_of baseRates ''USD'' = Some (lit 1)" by (simp add: baseRates_def)
  from baseRates_cases[OF b] show ?thesis
    by (simp add: derive_entry[OF b] b)
qed

lemma fallback_absent:
  assumes "map_of baseRates code = None"
  shows "deriveRatesFromFallback ''USD'' code = None"
proof -
  have b: "map_of baseRates ''USD'' = Some (lit 1)" by (simp add: baseRates_def)
  from baseRates_cases[OF b] show ?thesis
    by (simp add: derive_entry[OF b] assms)
qed


section \<open>The fallback rate table\<close>

text \<open>
  Two values of the arithmetic: the entry of JPY in the table derived for AUD is one unit
  in the last place above 102.5 (the engine prints \<^verbatim>\<open>102.50000000000001\<close>), and the rounded
  product of a rounded reciprocal with its argument is not 1 for every number (49 is the
  first integer where it is not).
\<close>

lemma derive_AUD_JPY:
  "deriveRatesFromFallback ''AUD'' ''JPY'' = Some (Finite False (7212796278210561 / 70368744177664))"
proof -
  have b: "map_of baseRates ''AUD'' = Some (Finite False (3422735716801577 / 2251799813685248))"
    unfolding baseRates_values by simp
  have r: "map_of baseRates ''JPY'' = Some (Finite False (2740862585720013 / 17592186044416))"
    unfolding baseRates_values by simp
  have t: "number_truthy (Finite False (3422735716801577 / 2251799813685248))" by simp
  show ?thesis
    unfolding derive_entry[OF b t] r inverse_AUD
    by (simp add: round_to_double_binade [of 6] round_eval)
qed

lemma reciprocal_product_49:
  "fmul (fdiv one (Finite False 49)) (Finite False 49)
     = Finite False (9007199254740991 / 9007199254740992)"
proof -
  have "fdiv one (Finite False 49) = Finite False (5882252574524729 / 288230376151711744)"
    by (simp add: one_def round_to_double_binade [of "-6"] round_eval)
  then show ?thesis
    by (simp add: round_to_double_binade [of "-1"] round_eval)
qed

text \<open>
  C3: for every base code that is a key of the built-in table, \<^verbatim>\<open>deriveRatesFromFallback\<close>
  maps every code of the built-in table to \<^verbatim>\<open>usdPerBase * builtIn[code]\<close> with
  \<^verbatim>\<open>usdPerBase = 1 / builtIn[base]\<close>, and the entry of the base itself is exactly 1. The
  products and quotients are those of binary64 arithmetic; for each of the seven built-in
  values \<open>b\<close> the rounded product of the rounded \<open>1 / b\<close> with \<open>b\<close> is 1.
\<close>

theorem deriveRatesFromFallback_rescales:
  assumes "base \<in> set (map fst baseRates)" and "code \<in> set (map fst baseRates)"
  shows "\<exists>b r. map_of baseRates base = Some b \<and> map_of baseRates code = Some r
           \<and> deriveRatesFromFallback base code = Some (fmul (fdiv one b) r)
           \<and> deriveRatesFromFallback base base = Some one"
proof -
  obtain b where b: "map_of baseRates base = Some b"
    using baseRates_key[OF assms(1)] by blast
  obtain r where r: "map_of baseRates code = Some r"
    using baseRates_key[OF assms(2)] by blast
  have t: "number_truthy b" and p: "fmul (fdiv one b) b = one"
    using baseRates_cases[OF b] by simp_all
  have "deriveRatesFromFallback base code = Some (fmul (fdiv one b) r)"
    by (simp add: derive_entry[OF b t] r)
  moreover have "deriveRatesFromFallback base base = Some one"
    by (simp add: derive_entry[OF b t] b p)
  ultimately show ?thesis using b r by blast
qed

theorem deriveRatesFromFallback_rescales_witness:
  "''JPY'' \<in> set (map fst baseRates) \<and> ''EUR'' \<in> set (map fst baseRates)
   \<and> deriveRatesFromFallback ''JPY'' ''EUR''
       = Some (fmul (fdiv one (lit (1558 / 10))) (lit (92 / 100)))
   \<and> deriveRatesFromFallback ''JPY'' ''JPY'' = Some one"
proof -
  have k1: "''JPY'' \<in> set (map fst baseRates)" and k2: "''EUR'' \<in> set (map fst baseRates)"
    by (simp_all add: baseRates_def)
  have m1: "map_of baseRates ''JPY'' = Some (lit (1558 / 10))"
    and m2: "map_of baseRates ''EUR'' = Some (lit (92 / 100))"
    by (simp_all add: baseRates_def)
  show ?thesis
    using deriveRatesFromFallback_rescales[OF k1 k2] k1 k2 unfolding m1 m2 by auto
qed

section \<open>The cross rate\<close>

lemma round_one: "round_to_double False 1 = one"
  using lit_USD by (simp add: lit_def one_def)

lemma fdiv_self:
  assumes "positive_finite x"
  shows "fdiv x x = one"
proof (cases x)
  case (Finite s a)
  with assms show ?thesis by (simp add: round_one)
qed (use assms in simp_all)

lemma positive_truthy: "positive x \<Longrightarrow> number_truthy x"
  by (cases x) auto

lemma positive_finite_positive: "positive_finite x \<Longrightarrow> positive x"
  by (cases x) auto

lemma rate_self_infinity:
  "tbl c = Some (JNum (Infinity s)) \<Longrightarrow> rate rt tbl c c = NaN"
  by (simp add: rate_def rateGuard_def lookup_def ToNumber_def)

text \<open>
  C1, as stated, fails on the code: \<^verbatim>\<open>Infinity\<close> is a positive number a table can hold
  (a response that lists \<^verbatim>\<open>1e999\<close> parses to it), and the cross rate from its code to
  itself is \<^verbatim>\<open>Infinity / Infinity\<close>, which is NaN.
\<close>

theorem rate_self_not_one_counterexample:
  "positive (Infinity False)
   \<and> [''USD'' \<mapsto> JNum one, ''XXX'' \<mapsto> JNum (Infinity False)] ''XXX'' = Some (JNum (Infinity False))
   \<and> rate sampleRuntime [''USD'' \<mapsto> JNum one, ''XXX'' \<mapsto> JNum (Infinity False)] ''XXX'' ''XXX'' = NaN
   \<and> NaN \<noteq> one"
  by (simp add: rate_def rateGuard_def lookup_def ToNumber_def one_def)

text \<open>
  C1, amended: when both codes are in the table and the table's values are positive
  numbers, the cross rate is the quotient \<^verbatim>\<open>table[target] / table[source]\<close>; and the
  cross rate from a code to itself is exactly 1 when the value there is a positive finite
  number.
\<close>

theorem rate_is_quotient:
  "(tbl src = Some (JNum x) \<and> tbl tgt = Some (JNum y) \<and> positive x \<and> positive y
      \<longrightarrow> rate rt tbl src tgt = fdiv y x)
   \<and> (tbl c = Some (JNum z) \<and> positive_finite z \<longrightarrow> rate rt tbl c c = one)"
proof (intro conjI impI)
  assume "tbl src = Some (JNum x) \<and> tbl tgt = Some (JNum y) \<and> positive x \<and> positive y"
  then show "rate rt tbl src tgt = fdiv y x"
    by (simp add: rate_def rateGuard_def lookup_def ToNumber_def positive_truthy)
next
  assume h: "tbl c = Some (JNum z) \<and> positive_finite z"
  then have "number_truthy z" by (simp add: positive_truthy positive_finite_positive)
  with h show "rate rt tbl c c = one"
    by (simp add: rate_def rateGuard_def lookup_def ToNumber_def fdiv_self)
qed

theorem rate_is_quotient_witness:
  "rate sampleRuntime [''USD'' \<mapsto> JNum one, ''EUR'' \<mapsto> JNum (lit (92 / 100))] ''USD'' ''EUR''
     = lit (92 / 100)
   \<and> rate sampleRuntime [''USD'' \<mapsto> JNum one, ''EUR'' \<mapsto> JNum (lit (92 / 100))] ''EUR'' ''EUR''
     = one"
proof -
  let ?t = "[''USD'' \<mapsto> JNum one, ''EUR'' \<mapsto> JNum (lit (92 / 100))]"
  have e: "lit (92 / 100) = Finite False (8286623314361713 / 9007199254740992)"
    by (rule lit_EUR)
  have q: "fdiv (lit (92 / 100)) one = lit (92 / 100)"
    unfolding e by (simp add: one_def round_to_double_binade [of "-1"] round_eval)
  have 1: "rate sampleRuntime ?t ''USD'' ''EUR'' = fdiv (lit (92 / 100)) one"
    using rate_is_quotient [where tbl = ?t and src = "''USD''" and x = one and tgt = "''EUR''"
        and y = "lit (92 / 100)" and rt = sampleRuntime]
    unfolding e by (simp add: one_def)
  have 2: "rate sampleRuntime ?t ''EUR'' ''EUR'' = one"
    using rate_is_quotient [where tbl = ?t and c = "''EUR''" and z = "lit (92 / 100)"
        and rt = sampleRuntime]
    unfolding e by simp
  show ?thesis using 1 2 q by simp
qed

text \<open>
  C9, as stated, fails on the code: the guard tests the value that \<^verbatim>\<open>rates[code]\<close> reads,
  and for a code that is absent from the table but names a member every object inherits
  (\<^verbatim>\<open>constructor\<close>) that value is a built-in function. It is truthy, the guard does not
  hold, and the quotient by it is NaN. The table here is the built-in one.
\<close>

theorem rate_absent_inherited_counterexample:
  "(map_option JNum \<circ> deriveRatesFromFallback ''USD'') ''constructor'' = None
   \<and> rate sampleRuntime (map_option JNum \<circ> deriveRatesFromFallback ''USD'') ''constructor'' ''USD''
       = NaN
   \<and> NaN \<noteq> one"
proof -
  have a: "deriveRatesFromFallback ''USD'' ''constructor'' = None"
    by (rule fallback_absent) (simp add: baseRates_def)
  show ?thesis
    by (simp add: a fallback_USD rate_def rateGuard_def lookup_def ToNumber_def
          objectPrototypeMembers_def one_def)
qed

text \<open>
  C9, amended: when the source code or the target code is absent from the table and does
  not name a member inherited from \<^verbatim>\<open>Object.prototype\<close>, the cross rate is exactly 1.
\<close>

theorem rate_absent_code:
  "(tbl src = None \<and> src \<notin> set objectPrototypeMembers)
     \<or> (tbl tgt = None \<and> tgt \<notin> set objectPrototypeMembers)
   \<Longrightarrow> rate rt tbl src tgt = one"
  by (auto simp: rate_def rateGuard_def lookup_def lit_USD one_def)

theorem rate_absent_code_witness:
  "[''USD'' \<mapsto> JNum one] ''XXX'' = None \<and> ''XXX'' \<notin> set objectPrototypeMembers
   \<and> rate sampleRuntime [''USD'' \<mapsto> JNum one] ''XXX'' ''USD'' = one
   \<and> rate sampleRuntime [''USD'' \<mapsto> JNum one] ''USD'' ''XXX'' = one"
proof -
  have m: "''XXX'' \<notin> set objectPrototypeMembers"
    by (simp add: objectPrototypeMembers_def)
  show ?thesis
    using rate_absent_code [where tbl = "[''USD'' \<mapsto> JNum one]" and src = "''XXX''"
        and tgt = "''USD''" and rt = sampleRuntime]
      rate_absent_code [where tbl = "[''USD'' \<mapsto> JNum one]" and src = "''USD''"
        and tgt = "''XXX''" and rt = sampleRuntime] m
    by simp
qed

text \<open>
  C10: the cross rate never divides by zero. When the source code or the target code
  maps to a zero (of either sign) or to NaN, the guard holds, so that the result is 1 and
  the division is not evaluated; and whenever the guard does not hold, a number found
  under the source code, the divisor, is neither zero nor NaN.
\<close>

theorem rate_guard_zero_nan:
  "((tbl src = Some (JNum x) \<and> (is_zero x \<or> x = NaN))
      \<or> (tbl tgt = Some (JNum y) \<and> (is_zero y \<or> y = NaN))
     \<longrightarrow> rateGuard tbl src tgt \<and> rate rt tbl src tgt = one)
   \<and> (\<not> rateGuard tbl src tgt \<and> tbl src = Some (JNum d) \<longrightarrow> \<not> is_zero d \<and> d \<noteq> NaN)"
proof -
  have z: "number_truthy n \<longleftrightarrow> \<not> is_zero n \<and> n \<noteq> NaN" for n
    by (cases n) auto
  show ?thesis
    by (auto simp: z rate_def rateGuard_def lookup_def lit_USD one_def)
qed

theorem rate_guard_zero_nan_witness:
  "rateGuard [''USD'' \<mapsto> JNum one, ''ZZZ'' \<mapsto> JNum (Finite False 0)] ''ZZZ'' ''USD''
   \<and> rate sampleRuntime [''USD'' \<mapsto> JNum one, ''ZZZ'' \<mapsto> JNum (Finite False 0)] ''ZZZ'' ''USD'' = one
   \<and> \<not> rateGuard [''USD'' \<mapsto> JNum one, ''ZZZ'' \<mapsto> JNum (Finite False 0)] ''USD'' ''USD''
   \<and> \<not> is_zero one \<and> one \<noteq> NaN"
proof -
  let ?t = "[''USD'' \<mapsto> JNum one, ''ZZZ'' \<mapsto> JNum (Finite False 0)]"
  have g: "\<not> rateGuard ?t ''USD'' ''USD''"
    by (simp add: rateGuard_def lookup_def one_def)
  show ?thesis
    using rate_guard_zero_nan [where tbl = ?t and src = "''ZZZ''" and x = "Finite False 0"
        and tgt = "''USD''" and rt = sampleRuntime]
      rate_guard_zero_nan [where tbl = ?t and src = "''USD''" and d = one and tgt = "''USD''"
        and rt = sampleRuntime] g
    by simp
qed


section \<open>The fetch cycle\<close>

lemma insort_key_map:
  "insort_key f (g x) (map g xs) = map g (insort_key (\<lambda>a. f (g a)) x xs)"
  by (induction xs) simp_all

lemma sort_key_map: "sort_key f (map g xs) = map g (sort_key (\<lambda>a. f (g a)) xs)"
  by (induction xs) (simp_all add: insort_key_map)

lemma sortDefault_strings: "sortDefault rt (map JStr cs) = map JStr (sort cs)"
proof -
  have "(\<lambda>c. ToString rt (JStr c)) = (\<lambda>c. c)" by (simp add: fun_eq_iff ToString_def)
  then show ?thesis
    by (simp add: sortDefault_def filter_map comp_def sort_key_map)
qed

lemma mapE_firstOf_pairs:
  "mapE firstOf (map (\<lambda>(c, n). JArr [JStr c, JStr n]) ps) = Inr (map JStr (map fst ps))"
  by (induction ps) (auto split: prod.splits)

lemma mapE_entryOf_pairs:
  "mapE (entryOf rt) (map (\<lambda>(c, n). JArr [JStr c, JStr n]) ps)
     = Inr (map (\<lambda>(c, n). (c, JStr n)) ps)"
  by (induction ps) (auto simp: ToString_def split: prod.splits)

lemma applyCodes_pairs:
  assumes "getProp codesJson ''supported_codes'' = JArr (map (\<lambda>(c, n). JArr [JStr c, JStr n]) ps)"
  shows "applyCodes rt codesJson s =
           Inr (s\<lparr>currencies := map JStr (sort (map fst ps)),
                  currencyNames := objectOf (map (\<lambda>(c, n). (c, JStr n)) ps)\<rparr>)"
  by (simp add: applyCodes_def assms mapE_firstOf_pairs fromEntries_def mapE_entryOf_pairs
        sortDefault_strings del: map_map)
lemma trim_h: "trimTrailingSlash ''http://h/'' = ''http://h''"
  by (simp add: trimTrailingSlash_def)

lemma getProp_obj: "getProp (JObj kvs) k = (case map_of (rev kvs) k of Some x \<Rightarrow> x | None \<Rightarrow> JUndefined)"
  by (simp add: getProp_def objectOf_eq)
lemma sort_sample: "sort [''USD'', ''EUR''] = [''EUR'', ''USD'']"
  by code_simp

lemma tryBlock_throw_state:
  assumes "tryBlock rt codesFetch ratesFetch s0 = (Some e, s1)"
  shows "s1 = s0"
  using assms
  by (auto simp: tryBlock_def Let_def split: option.splits sum.splits if_splits)



text \<open>
  C6: with no backend address configured (the environment value not set, or empty) the
  cycle fetches nothing and ends with the built-in catalog of seven codes, the rate table
  \<^verbatim>\<open>deriveRatesFromFallback('USD')\<close>, the fallback status and the loading flag off; the
  rest of the state is as it was.
\<close>

theorem no_backend_address:
  assumes "apiBaseUrl = None \<or> apiBaseUrl = Some []"
  shows "loadSymbolsAndRates rt apiBaseUrl net s =
           (s\<lparr>currencies := map JStr [''USD'', ''EUR'', ''GBP'', ''JPY'', ''CAD'', ''AUD'', ''CHF''],
              currencyNames := map_option JStr \<circ> map_of fallbackNames,
              rates := map_option JNum \<circ> deriveRatesFromFallback ''USD'',
              usingFallback := True,
              loading := False\<rparr>, [])"
  using assms
  by (auto simp: loadSymbolsAndRates_def installFallbackCatalog_def installFallbackRates_def
        fallbackCurrencies_def)

theorem no_backend_address_witness:
  "loadSymbolsAndRates sampleRuntime None (\<lambda>url. None) initialState =
     (initialState\<lparr>usingFallback := True, loading := False\<rparr>, [])"
  using no_backend_address [where apiBaseUrl = None and rt = sampleRuntime
      and net = "\<lambda>url. None" and s = initialState]
  by (simp add: initialState_def fallbackCurrencies_def)

text \<open>
  C4: when the \<^verbatim>\<open>try\<close> block throws, whatever state \<open>s1\<close> it had reached, the cycle ends
  with the catalog and the rate table both at their built-in defaults, the fallback status
  and the loading flag off. (In this code every throw comes before the first setter of the
  block, so that \<open>s1\<close> is the state the block started from: \<open>tryBlock_throw_state\<close>.)
\<close>

theorem exception_resets_both:
  assumes "apiBaseUrl = Some u" and "u \<noteq> []"
    and "tryBlock rt (net (trimTrailingSlash u @ ''/codes''))
           (net (trimTrailingSlash u @ ''/rates?base=USD'')) (s\<lparr>loading := True\<rparr>) = (Some e, s1)"
  shows "fst (loadSymbolsAndRates rt apiBaseUrl net s) =
           s1\<lparr>currencies := map JStr fallbackCurrencies,
               currencyNames := map_option JStr \<circ> map_of fallbackNames,
               rates := map_option JNum \<circ> deriveRatesFromFallback ''USD'',
               usingFallback := True,
               loading := False\<rparr>"
  using assms
  by (simp add: loadSymbolsAndRates_def catchBlock_def installFallbackCatalog_def
        installFallbackRates_def Let_def)

theorem exception_resets_both_witness:
  "fst (loadSymbolsAndRates sampleRuntime (Some ''http://h/'') (sampleNet (Some codesBody) None)
         staleState)
     = initialState\<lparr>usingFallback := True, loading := False\<rparr>"
proof -
  have t: "tryBlock sampleRuntime (sampleNet (Some codesBody) None (trimTrailingSlash ''http://h/'' @ ''/codes''))
             (sampleNet (Some codesBody) None (trimTrailingSlash ''http://h/'' @ ''/rates?base=USD''))
             (staleState\<lparr>loading := True\<rparr>) = (Some SyntaxError, staleState\<lparr>loading := True\<rparr>)"
    by (simp add: trim_h sampleNet_def tryBlock_def ok_def json_def)
  show ?thesis
    using exception_resets_both [OF refl _ t]
    by (simp add: staleState_def initialState_def)
qed

text \<open>
  C5: when the codes sub-fetch succeeds (a success status, a body whose \<^verbatim>\<open>result\<close> is
  \<^verbatim>\<open>"success"\<close> and whose \<^verbatim>\<open>supported_codes\<close> is a list of code and name pairs) and the
  rates sub-fetch returns without success (a non-success status, or a body whose
  \<^verbatim>\<open>result\<close> is not \<^verbatim>\<open>"success"\<close>), the cycle ends with the catalog parsed from the
  response (the codes sorted, the names by code), the built-in rate table derived for USD
  and the fallback status.
\<close>

theorem codes_live_rates_failed:
  assumes "apiBaseUrl = Some u" and "u \<noteq> []"
    and "net (trimTrailingSlash u @ ''/codes'') = Some codesRes"
    and "ok codesRes" and "body codesRes = Some codesJson"
    and "getProp codesJson ''result'' = JStr ''success''"
    and "getProp codesJson ''supported_codes'' = JArr (map (\<lambda>(c, n). JArr [JStr c, JStr n]) pairs)"
    and "net (trimTrailingSlash u @ ''/rates?base=USD'') = Some ratesRes"
    and "\<not> ok ratesRes \<or> (\<exists>j. body ratesRes = Some j \<and> getProp j ''result'' \<noteq> JStr ''success'')"
  shows "fst (loadSymbolsAndRates rt apiBaseUrl net s) =
           s\<lparr>currencies := map JStr (sort (map fst pairs)),
              currencyNames := objectOf (map (\<lambda>(c, n). (c, JStr n)) pairs),
              rates := map_option JNum \<circ> deriveRatesFromFallback ''USD'',
              usingFallback := True,
              loading := False\<rparr>"
proof -
  have cs: "codesSuccess codesRes codesJson"
    using assms(4,6,7) by (simp add: codesSuccess_def)
  have rs: "\<not> truthy (ratesSuccess ratesRes j)" if "\<not> ok ratesRes \<or> getProp j ''result'' \<noteq> JStr ''success''" for j
    using that by (auto simp: ratesSuccess_def)
  from assms(9) have "tryBlock rt (Some codesRes) (Some ratesRes) (s\<lparr>loading := True\<rparr>) =
      (None, s\<lparr>loading := True,
               currencies := map JStr (sort (map fst pairs)),
               currencyNames := objectOf (map (\<lambda>(c, n). (c, JStr n)) pairs),
               rates := map_option JNum \<circ> deriveRatesFromFallback ''USD'',
               usingFallback := True\<rparr>)"
  proof
    assume "\<not> ok ratesRes"
    then show ?thesis
      using rs[of JNull] assms(4,5) cs
      by (simp add: tryBlock_def json_def applyCodes_pairs[OF assms(7)] installFallbackRates_def)
  next
    assume "\<exists>j. body ratesRes = Some j \<and> getProp j ''result'' \<noteq> JStr ''success''"
    then obtain j where j: "body ratesRes = Some j" "getProp j ''result'' \<noteq> JStr ''success''"
      by blast
    have n: "getProp JNull ''result'' \<noteq> JStr ''success''" by (simp add: getProp_def)
    show ?thesis
      using rs[of j] rs[of JNull] j n assms(4,5) cs
      by (simp add: tryBlock_def json_def applyCodes_pairs[OF assms(7)] installFallbackRates_def)
  qed
  then show ?thesis
    using assms(1,2,3,8) by (simp add: loadSymbolsAndRates_def Let_def)
qed

theorem codes_live_rates_failed_witness:
  "fst (loadSymbolsAndRates sampleRuntime (Some ''http://h/'')
          (sampleNet (Some codesBody) (Some errorBody)) initialState)
     = initialState
         \<lparr>currencies := [JStr ''EUR'', JStr ''USD''],
          currencyNames := [''USD'' \<mapsto> JStr ''United States Dollar'', ''EUR'' \<mapsto> JStr ''Euro''],
          usingFallback := True,
          loading := False\<rparr>"
proof -
  let ?net = "sampleNet (Some codesBody) (Some errorBody)"
  let ?codesRes = "\<lparr>status = 200, body = Some codesBody\<rparr>"
  let ?ratesRes = "\<lparr>status = 200, body = Some errorBody\<rparr>"
  let ?pairs = "[(''USD'', ''United States Dollar''), (''EUR'', ''Euro'')]"
  have 1: "?net (trimTrailingSlash ''http://h/'' @ ''/codes'') = Some ?codesRes"
    by (simp add: trim_h sampleNet_def)
  have 2: "?net (trimTrailingSlash ''http://h/'' @ ''/rates?base=USD'') = Some ?ratesRes"
    by (simp add: trim_h sampleNet_def)
  have 3: "ok ?codesRes" by (simp add: ok_def)
  have 4: "getProp codesBody ''result'' = JStr ''success''"
    by (simp add: codesBody_def getProp_obj)
  have 5: "getProp codesBody ''supported_codes'' = JArr (map (\<lambda>(c, n). JArr [JStr c, JStr n]) ?pairs)"
    by (simp add: codesBody_def getProp_obj)
  have 6: "\<not> ok ?ratesRes \<or> (\<exists>j. body ?ratesRes = Some j \<and> getProp j ''result'' \<noteq> JStr ''success'')"
    by (simp add: errorBody_def getProp_obj)
  have 7: "''http://h/'' \<noteq> []" by simp
  have 8: "body ?codesRes = Some codesBody" by simp
  show ?thesis
    using codes_live_rates_failed [OF refl 7 1 3 8 4 5 2 6, of sampleRuntime initialState]
    by (simp add: sort_sample objectOf_eq initialState_def fun_eq_iff)
qed






lemma live_sample:
  "fst (loadSymbolsAndRates sampleRuntime (Some ''http://h/'')
          (sampleNet (Some codesBody) (Some ratesBody)) initialState)
     = initialState
         \<lparr>currencies := [JStr ''EUR'', JStr ''USD''],
          currencyNames := [''USD'' \<mapsto> JStr ''United States Dollar'', ''EUR'' \<mapsto> JStr ''Euro''],
          rates := [''USD'' \<mapsto> JNum one, ''EUR'' \<mapsto> JNum (lit (92 / 100))],
          usingFallback := False,
          loading := False\<rparr>"
proof -
  have 5: "getProp codesBody ''supported_codes'' =
      JArr (map (\<lambda>(c, n). JArr [JStr c, JStr n]) [(''USD'', ''United States Dollar''), (''EUR'', ''Euro'')])"
    by (simp add: codesBody_def getProp_obj)
  have c: "codesSuccess \<lparr>status = 200, body = Some codesBody\<rparr> codesBody"
    by (simp add: codesSuccess_def ok_def codesBody_def getProp_obj)
  have r: "ratesSuccess \<lparr>status = 200, body = Some ratesBody\<rparr> ratesBody
             = JObj [(''USD'', JNum (lit 1)), (''EUR'', JNum (lit (92 / 100)))]"
    by (simp add: ratesSuccess_def ok_def ratesBody_def getProp_obj)
  have a: "applyRates sampleRuntime ratesBody s
             = s\<lparr>rates := [''USD'' \<mapsto> JNum one, ''EUR'' \<mapsto> JNum (lit (92 / 100))]\<rparr>" for s
    by (simp add: applyRates_def baseCode_def ratesBody_def getProp_obj ToString_def objectOf_eq
          lit_USD one_def fun_eq_iff)
  show ?thesis
    by (simp add: loadSymbolsAndRates_def trim_h sampleNet_def tryBlock_def ok_def json_def c r a
          applyCodes_pairs[OF 5] sort_sample objectOf_eq initialState_def fun_eq_iff)
qed


section \<open>The proxy replies\<close>

text \<open>
  C7: with no upstream credential configured (the environment value not set, or empty),
  \<^verbatim>\<open>/codes\<close> and \<^verbatim>\<open>/rates\<close> both reply with status 500 and a body that names the missing
  key, and fetch nothing.
\<close>

theorem missing_credential:
  assumes "API_KEY = None \<or> API_KEY = Some []"
  shows "getCodes API_KEY upstreamNet =
           (\<lparr>replyStatus = 500,
             replyBody = JObj [(''error'', JStr ''Missing EXCHANGERATE_API_KEY on the backend'')]\<rparr>, [])
         \<and> getRates rt API_KEY queryBase upstreamNet =
           (\<lparr>replyStatus = 500,
             replyBody = JObj [(''error'', JStr ''Missing EXCHANGERATE_API_KEY on the backend'')]\<rparr>, [])"
  using assms by (auto simp: getCodes_def getRates_def ensureApiKey_def)

theorem missing_credential_witness:
  "replyStatus (fst (getCodes None (\<lambda>url. Some \<lparr>status = 200, body = Some codesBody\<rparr>))) = 500
   \<and> snd (getCodes None (\<lambda>url. Some \<lparr>status = 200, body = Some codesBody\<rparr>)) = []
   \<and> replyStatus (fst (getRates sampleRuntime None (JStr ''EUR'')
                          (\<lambda>url. Some \<lparr>status = 200, body = Some ratesBody\<rparr>))) = 500
   \<and> snd (getRates sampleRuntime None (JStr ''EUR'')
             (\<lambda>url. Some \<lparr>status = 200, body = Some ratesBody\<rparr>)) = []"
  using missing_credential [of None "\<lambda>url. Some \<lparr>status = 200, body = Some codesBody\<rparr>"
      sampleRuntime "JStr ''EUR''"]
    missing_credential [of None "\<lambda>url. Some \<lparr>status = 200, body = Some ratesBody\<rparr>"
      sampleRuntime "JStr ''EUR''"]
  by simp
lemma relay_not_success:
  assumes "upstreamNet url = Some upstream" and "body upstream = Some j"
    and "\<not> ok upstream \<or> getProp j ''result'' \<noteq> JStr ''success''"
  shows "relay upstreamNet url failure =
           (\<lparr>replyStatus = 502,
             replyBody = JObj [(''error'', JStr ''Upstream error''), (''details'', j)]\<rparr>, [url])"
  using assms by (auto simp: relay_def json_def)

text \<open>
  C8: with a credential configured, when the outbound call returns a body that is JSON
  but the status is not a success status or the body's \<^verbatim>\<open>result\<close> is not
  \<^verbatim>\<open>"success"\<close>, \<^verbatim>\<open>/codes\<close> and \<^verbatim>\<open>/rates\<close> both reply with status 502 and the body
  \<^verbatim>\<open>{ error, details }\<close>, \<^verbatim>\<open>details\<close> being the upstream body.
\<close>

theorem upstream_not_success:
  assumes "API_KEY = Some k" and "k \<noteq> []"
    and "body upstream = Some j"
    and "\<not> ok upstream \<or> getProp j ''result'' \<noteq> JStr ''success''"
  shows "(upstreamNet (codesUpstreamUrl API_KEY) = Some upstream \<longrightarrow>
            fst (getCodes API_KEY upstreamNet) =
              \<lparr>replyStatus = 502,
               replyBody = JObj [(''error'', JStr ''Upstream error''), (''details'', j)]\<rparr>)
         \<and> (upstreamNet (latestUpstreamUrl rt API_KEY queryBase) = Some upstream \<longrightarrow>
            fst (getRates rt API_KEY queryBase upstreamNet) =
              \<lparr>replyStatus = 502,
               replyBody = JObj [(''error'', JStr ''Upstream error''), (''details'', j)]\<rparr>)"
  using assms
  by (auto simp: getCodes_def getRates_def ensureApiKey_def relay_not_success)

theorem upstream_not_success_witness:
  "fst (getCodes (Some ''k'') (\<lambda>url. Some \<lparr>status = 403, body = Some errorBody\<rparr>))
     = \<lparr>replyStatus = 502,
        replyBody = JObj [(''error'', JStr ''Upstream error''), (''details'', errorBody)]\<rparr>
   \<and> fst (getRates sampleRuntime (Some ''k'') JUndefined
           (\<lambda>url. Some \<lparr>status = 200, body = Some errorBody\<rparr>))
     = \<lparr>replyStatus = 502,
        replyBody = JObj [(''error'', JStr ''Upstream error''), (''details'', errorBody)]\<rparr>"
proof -
  have e: "getProp errorBody ''result'' \<noteq> JStr ''success''"
    by (simp add: errorBody_def getProp_obj)
  have k: "''k'' \<noteq> []" by simp
  show ?thesis
    using upstream_not_success [OF refl k, of "\<lparr>status = 403, body = Some errorBody\<rparr>" errorBody
        "\<lambda>url. Some \<lparr>status = 403, body = Some errorBody\<rparr>" sampleRuntime JUndefined]
      upstream_not_success [OF refl k, of "\<lparr>status = 200, body = Some errorBody\<rparr>" errorBody
        "\<lambda>url. Some \<lparr>status = 200, body = Some errorBody\<rparr>" sampleRuntime JUndefined]
      e
    by (simp add: ok_def)
qed

end
